theory Spec2Isabelle
  imports Complex_Main "HOL-Library.Multiset"
begin

section \<open>The equilibrium statistic calculator (main.py)\<close>

text \<open>
  Numbers are modelled as exact reals (the data model of the specification: a dataset is
  a sequence of real numbers and the calculators have exact real-number semantics), so
  the rounding of IEEE doubles is not part of this development. A dataset and an
  iteration triple are Python lists, hence \<open>real list\<close>; the iteration history is a
  list of such lists. Every exception the code can raise is a value of \<open>py_error\<close>.
\<close>

datatype py_error = ZeroDivisionError | ValueError | StatisticsError | IndexError

text \<open>
  The parameter \<open>epsilon\<close> is a float or the string \<open>'*'\<close>; the test
  \<open>epsilon == '*'\<close> selects the stagnation-only mode.
\<close>

datatype criterion = Epsilon real | StagnationOnly

subsection \<open>Builtins\<close>

text \<open>Python's \<open>min\<close> and \<open>max\<close> of an iterable raise ValueError when it is empty.\<close>

fun py_min :: "'a::linorder list \<Rightarrow> py_error + 'a" where
  "py_min [] = Inl ValueError"
| "py_min (x # xs) = Inr (fold min xs x)"

fun py_max :: "'a::linorder list \<Rightarrow> py_error + 'a" where
  "py_max [] = Inl ValueError"
| "py_max (x # xs) = Inr (fold max xs x)"

text \<open>
  \<open>collections.Counter\<close>: a dictionary from each distinct value to its number of
  occurrences, in the order of first occurrence. It is kept as an association list
  because \<open>values()\<close> and \<open>items()\<close> are read in that order.
\<close>

fun counter_add :: "'a \<Rightarrow> ('a \<times> nat) list \<Rightarrow> ('a \<times> nat) list" where
  "counter_add x [] = [(x, 1)]"
| "counter_add x ((k, c) # kcs) =
     (if k = x then (k, Suc c) # kcs else (k, c) # counter_add x kcs)"

definition Counter :: "'a list \<Rightarrow> ('a \<times> nat) list" where
  "Counter data = foldl (\<lambda>m x. counter_add x m) [] data"

text \<open>The slice \<open>xs[i:]\<close>, where a negative index counts from the end.\<close>

definition slice_from :: "'a list \<Rightarrow> int \<Rightarrow> 'a list" where
  "slice_from xs i =
     (if i < 0 then drop (nat (max 0 (int (length xs) + i))) xs else drop (nat i) xs)"

text \<open>The slice \<open>xs[:i]\<close>.\<close>

definition slice_to :: "'a list \<Rightarrow> int \<Rightarrow> 'a list" where
  "slice_to xs i =
     (if i < 0 then take (nat (max 0 (int (length xs) + i))) xs else take (nat i) xs)"

subsection \<open>The three calculators\<close>

definition calculate_mean :: "real list \<Rightarrow> py_error + real" where
  "calculate_mean data =
     (if length data = 0 then Inl ZeroDivisionError
      else Inr (sum_list data / real (length data)))"

text \<open>
  \<open>statistics.median\<close> of the standard library: it sorts a copy, raises
  StatisticsError on no data, and returns the middle element or the mean of the two
  middle elements.
\<close>

definition calculate_median :: "real list \<Rightarrow> py_error + real" where
  "calculate_median data =
     (let sorted_data = sort data; n = length sorted_data in
      if n = 0 then Inl StatisticsError
      else if n mod 2 = 1 then Inr (sorted_data ! (n div 2))
      else (let i = n div 2 in Inr ((sorted_data ! (i - 1) + sorted_data ! i) / 2)))"

text \<open>The body of the \<open>try\<close> block of \<open>calculate_mode\<close>.\<close>

definition calculate_mode_try :: "real list \<Rightarrow> py_error + real" where
  "calculate_mode_try data =
     (let counter = Counter data in
      case py_max (map snd counter) of
        Inl e \<Rightarrow> Inl e
      | Inr max_count \<Rightarrow>
          if max_count = 1 then calculate_mean data
          else (let modes = map fst (filter (\<lambda>(v, count). count = max_count) counter)
                in py_min modes))"

text \<open>\<open>except Exception\<close>: whatever the body raised, the mean is returned instead.\<close>

definition calculate_mode :: "real list \<Rightarrow> py_error + real" where
  "calculate_mode data =
     (case calculate_mode_try data of
        Inl e \<Rightarrow> calculate_mean data
      | Inr v \<Rightarrow> Inr v)"

definition calculate_statistics :: "real list \<Rightarrow> py_error + (real \<times> real \<times> real)" where
  "calculate_statistics data =
     (case calculate_mean data of
        Inl e \<Rightarrow> Inl e
      | Inr mean \<Rightarrow>
          (case calculate_median data of
             Inl e \<Rightarrow> Inl e
           | Inr median \<Rightarrow>
               (case calculate_mode data of
                  Inl e \<Rightarrow> Inl e
                | Inr mode \<Rightarrow> Inr (mean, median, mode))))"

subsection \<open>The two predicates\<close>

text \<open>The \<open>for\<close> loop of \<open>check_stagnation\<close>, which returns False at the first difference.\<close>

fun all_identical :: "'a \<Rightarrow> 'a list \<Rightarrow> bool" where
  "all_identical first_iteration [] = True"
| "all_identical first_iteration (iteration # rest) =
     (if iteration \<noteq> first_iteration then False else all_identical first_iteration rest)"

definition check_stagnation :: "real list list \<Rightarrow> int \<Rightarrow> py_error + bool" where
  "check_stagnation iteration_history stagnation_window =
     (if int (length iteration_history) < stagnation_window then Inr False
      else (case slice_from iteration_history (- stagnation_window) of
              [] \<Rightarrow> Inl IndexError
            | first_iteration # rest \<Rightarrow> Inr (all_identical first_iteration rest)))"

definition check_convergence :: "real list \<Rightarrow> real \<Rightarrow> py_error + bool" where
  "check_convergence values epsilon =
     (if length values < 2 then Inr True
      else (case py_min values of
              Inl e \<Rightarrow> Inl e
            | Inr min_val \<Rightarrow>
                (case py_max values of
                   Inl e \<Rightarrow> Inl e
                 | Inr max_val \<Rightarrow> Inr (max_val - min_val \<le> epsilon))))"

subsection \<open>The iteration engine\<close>

text \<open>
  The variables of the \<open>while True\<close> loop of \<open>equilibrium_statistic\<close>.
\<close>

record loop_state =
  current_data :: "real list"
  iteration :: nat
  iteration_history :: "real list list"

text \<open>
  What a run hands back: the pair \<open>(absolute_stat, iteration_history)\<close> it returns,
  together with what it prints when it stops: the iteration counter, the last output
  \<open>new_data\<close>, and which of the two messages (convergence or stagnation) was shown.
\<close>

datatype stop = Convergence | Stagnation

record outcome =
  absolute_stat :: real
  history :: "real list list"
  iterations :: nat
  final_triple :: "real list"
  why :: stop

text \<open>
  Lines 130 to 136: the statistics of the current dataset are computed, the triple
  \<open>new_data\<close> is appended to the history and the counter is incremented.
\<close>

definition advance :: "loop_state \<Rightarrow> py_error + (real list \<times> loop_state)" where
  "advance s =
     (case calculate_statistics (current_data s) of
        Inl e \<Rightarrow> Inl e
      | Inr (mean, median, mode) \<Rightarrow>
          (let new_data = [mean, median, mode] in
           Inr (new_data,
                s\<lparr>iteration_history := iteration_history s @ [[mean, median, mode]],
                  iteration := iteration s + 1\<rparr>)))"

definition stagnation_exit :: "real list \<Rightarrow> loop_state \<Rightarrow> outcome" where
  "stagnation_exit new_data s =
     \<lparr>absolute_stat = sum_list new_data / real (length new_data),
      history = (if length (iteration_history s) \<ge> 1000
                 then slice_to (iteration_history s) (- 999)
                 else iteration_history s),
      iterations = iteration s,
      final_triple = new_data,
      why = Stagnation\<rparr>"

text \<open>
  Lines 147 to 181, on the state after the append: convergence is tested unless the mode
  is stagnation-only, then stagnation with the default window of 1000; otherwise the
  triple becomes the next dataset.
\<close>

definition decide :: "criterion \<Rightarrow> real list \<Rightarrow> loop_state \<Rightarrow> py_error + (outcome + loop_state)" where
  "decide epsilon new_data s =
     (let converged =
            (case epsilon of
               StagnationOnly \<Rightarrow> Inr False
             | Epsilon eps \<Rightarrow> check_convergence new_data eps)
      in case converged of
           Inl e \<Rightarrow> Inl e
         | Inr True \<Rightarrow>
             Inr (Inl \<lparr>absolute_stat = sum_list new_data / real (length new_data),
                       history = iteration_history s,
                       iterations = iteration s,
                       final_triple = new_data,
                       why = Convergence\<rparr>)
         | Inr False \<Rightarrow>
             (case check_stagnation (iteration_history s) 1000 of
                Inl e \<Rightarrow> Inl e
              | Inr True \<Rightarrow> Inr (Inl (stagnation_exit new_data s))
              | Inr False \<Rightarrow> Inr (Inr (s\<lparr>current_data := new_data\<rparr>))))"

definition loop_body :: "criterion \<Rightarrow> loop_state \<Rightarrow> py_error + (outcome + loop_state)" where
  "loop_body epsilon s =
     (case advance s of
        Inl e \<Rightarrow> Inl e
      | Inr (new_data, s') \<Rightarrow> decide epsilon new_data s')"

text \<open>
  The loop has no bound of its own, so it is run with fuel: \<open>Inr None\<close> means that it
  has not returned after that many rounds.
\<close>

fun while_true :: "nat \<Rightarrow> criterion \<Rightarrow> loop_state \<Rightarrow> py_error + outcome option" where
  "while_true 0 epsilon s = Inr None"
| "while_true (Suc fuel) epsilon s =
     (case loop_body epsilon s of
        Inl e \<Rightarrow> Inl e
      | Inr (Inl out) \<Rightarrow> Inr (Some out)
      | Inr (Inr s') \<Rightarrow> while_true fuel epsilon s')"

definition equilibrium_statistic :: "nat \<Rightarrow> real list \<Rightarrow> criterion \<Rightarrow> py_error + outcome option" where
  "equilibrium_statistic fuel initial_data epsilon =
     while_true fuel epsilon
       \<lparr>current_data = initial_data, iteration = 0, iteration_history = []\<rparr>"

text \<open>
  The variables of the loop at the \<open>return\<close> statement the run leaves by, if it
  reaches one within the fuel: the history there is the one before any truncation.
\<close>

fun exit_state :: "nat \<Rightarrow> criterion \<Rightarrow> loop_state \<Rightarrow> loop_state option" where
  "exit_state 0 epsilon s = None"
| "exit_state (Suc fuel) epsilon s =
     (case advance s of
        Inl e \<Rightarrow> None
      | Inr (new_data, s') \<Rightarrow>
          (case decide epsilon new_data s' of
             Inl e \<Rightarrow> None
           | Inr (Inl out) \<Rightarrow> Some s'
           | Inr (Inr s'') \<Rightarrow> exit_state fuel epsilon s''))"

definition equilibrium_exit :: "nat \<Rightarrow> real list \<Rightarrow> criterion \<Rightarrow> loop_state option" where
  "equilibrium_exit fuel initial_data epsilon =
     exit_state fuel epsilon
       \<lparr>current_data = initial_data, iteration = 0, iteration_history = []\<rparr>"

subsection \<open>The mode, as the specification words it\<close>

text \<open>
  The occurrences of every value are counted; when the largest count is 1 the result is
  the mean, otherwise the smallest of the values that reach the largest count.
\<close>

definition mode_spec :: "real list \<Rightarrow> real" where
  "mode_spec data =
     (let max_count = Max (set (map (count_list data) data)) in
      if max_count = 1 then sum_list data / real (length data)
      else Min (set (filter (\<lambda>v. count_list data v = max_count) data)))"

subsection \<open>Stagnation, as the specification words it\<close>

text \<open>
  At least 1000 entries, the last 1000 of which are one and the same triple.
\<close>

definition stagnated :: "real list list \<Rightarrow> bool" where
  "stagnated h = (1000 \<le> length h \<and> drop (length h - 1000) h = replicate 1000 (last h))"

section \<open>Builtins and the counter\<close>

lemma py_min_Min: "xs \<noteq> [] \<Longrightarrow> py_min xs = Inr (Min (set xs))"
proof (cases xs)
  case (Cons a list)
  then show ?thesis using Min.set_eq_fold[of a list] by simp
qed simp

lemma py_max_Max: "xs \<noteq> [] \<Longrightarrow> py_max xs = Inr (Max (set xs))"
proof (cases xs)
  case (Cons a list)
  then show ?thesis using Max.set_eq_fold[of a list] by simp
qed simp

lemma counter_add_keys: "fst ` set (counter_add x m) = insert x (fst ` set m)"
  by (induction x m rule: counter_add.induct) auto

lemma counter_add_distinct: "distinct (map fst m) \<Longrightarrow> distinct (map fst (counter_add x m))"
proof (induction x m rule: counter_add.induct)
  case (2 x k c kcs)
  then show ?case using counter_add_keys[of x kcs] by (auto simp: image_iff)
qed simp

lemma counter_add_map_of:
  "map_of (counter_add x m) k =
     (if k = x then Some (case map_of m x of None \<Rightarrow> 1 | Some c \<Rightarrow> Suc c) else map_of m k)"
  by (induction x m rule: counter_add.induct) auto

lemma counter_fold_distinct:
  "distinct (map fst m) \<Longrightarrow> distinct (map fst (foldl (\<lambda>m x. counter_add x m) m data))"
  by (induction data arbitrary: m) (simp_all add: counter_add_distinct)

lemma counter_fold_map_of:
  "map_of (foldl (\<lambda>m x. counter_add x m) m data) k =
     (case map_of m k of
        None \<Rightarrow> if k \<in> set data then Some (count_list data k) else None
      | Some c \<Rightarrow> Some (c + count_list data k))"
proof (induction data arbitrary: m)
  case Nil
  then show ?case by (simp split: option.splits)
next
  case (Cons x xs)
  show ?case
    by (simp add: Cons.IH counter_add_map_of count_list_0_iff split: option.splits)
qed

lemma Counter_distinct: "distinct (map fst (Counter data))"
  by (simp add: Counter_def counter_fold_distinct)

lemma Counter_set: "set (Counter data) = (\<lambda>x. (x, count_list data x)) ` set data"
proof -
  have "((k, c) \<in> set (Counter data)) = (k \<in> set data \<and> c = count_list data k)" for k c
  proof -
    have "((k, c) \<in> set (Counter data)) = (map_of (Counter data) k = Some c)"
      using map_of_eq_Some_iff[OF Counter_distinct, of data k c] by simp
    also have "\<dots> = (k \<in> set data \<and> c = count_list data k)"
      by (auto simp: Counter_def counter_fold_map_of split: if_splits)
    finally show ?thesis .
  qed
  then show ?thesis by auto
qed


section \<open>The mode calculator\<close>

lemma Counter_max:
  assumes "data \<noteq> []"
  shows "py_max (map snd (Counter data)) = Inr (Max (set (map (count_list data) data)))"
proof -
  have ne: "Counter data \<noteq> []" using Counter_set[of data] assms by auto
  have "snd ` set (Counter data) = count_list data ` set data"
    by (simp add: Counter_set image_image)
  then show ?thesis using py_max_Max[of "map snd (Counter data)"] ne by simp
qed

lemma Counter_modes:
  "set (map fst (filter (\<lambda>(v, count). count = mc) (Counter data)))
     = set (filter (\<lambda>v. count_list data v = mc) data)"
  by (auto simp: Counter_set image_iff)

lemma modes_nonempty:
  assumes "data \<noteq> []"
  shows "filter (\<lambda>v. count_list data v = Max (set (map (count_list data) data))) data \<noteq> []"
proof -
  have "Max (count_list data ` set data) \<in> count_list data ` set data"
    using assms by (intro Max_in) auto
  then obtain v where "v \<in> set data" "count_list data v = Max (count_list data ` set data)"
    by auto
  then show ?thesis by (auto simp: filter_empty_conv)
qed

lemma nonempty_of_set_eq: "set xs = set ys \<Longrightarrow> ys \<noteq> [] \<Longrightarrow> xs \<noteq> []"
  by (cases xs) auto

lemma calculate_mode_try_spec:
  assumes "data \<noteq> []"
  shows "calculate_mode_try data = Inr (mode_spec data)"
proof -
  let ?mc = "Max (set (map (count_list data) data))"
  let ?modes = "map fst (filter (\<lambda>(v, count). count = ?mc) (Counter data))"
  have eq: "set ?modes = set (filter (\<lambda>v. count_list data v = ?mc) data)"
    by (rule Counter_modes)
  have "?modes \<noteq> []"
    by (rule nonempty_of_set_eq[OF eq modes_nonempty[OF assms]])
  then have "py_min ?modes = Inr (Min (set (filter (\<lambda>v. count_list data v = ?mc) data)))"
    using py_min_Min[of ?modes] Counter_modes[of ?mc data] by simp
  then show ?thesis
    using assms by (simp add: calculate_mode_try_def Counter_max mode_spec_def calculate_mean_def Let_def)
qed

lemma calculate_mode_spec: "data \<noteq> [] \<Longrightarrow> calculate_mode data = Inr (mode_spec data)"
  by (simp add: calculate_mode_def calculate_mode_try_spec)


lemma calculate_mean_nonempty:
  "data \<noteq> [] \<Longrightarrow> calculate_mean data = Inr (sum_list data / real (length data))"
  by (simp add: calculate_mean_def)

text \<open>
  Claim C3. For every non-empty dataset the mode calculator returns what the counting
  rule prescribes: the mean when the largest number of occurrences is 1, otherwise the
  smallest of the values that occur most often. The dataset 1, 1, 2, 2, 3 gives 1 and
  the dataset 1, 2, 3, 4 gives 2.5.
\<close>

theorem calculate_mode_smallest_most_frequent:
  "(data \<noteq> [] \<longrightarrow> calculate_mode data = Inr (mode_spec data))
   \<and> calculate_mode [1, 1, 2, 2, 3] = Inr 1
   \<and> calculate_mode [1, 2, 3, 4] = Inr 2.5"
proof -
  have "calculate_mode [1, 1, 2, 2, 3] = Inr 1"
    by (simp add: calculate_mode_def calculate_mode_try_def Counter_def)
  moreover have "calculate_mode [1, 2, 3, 4] = Inr 2.5"
    by (simp add: calculate_mode_def calculate_mode_try_def Counter_def calculate_mean_def)
  ultimately show ?thesis by (simp add: calculate_mode_spec)
qed

text \<open>The same at the dataset 4, 7, 7, 4, 9, where 4 and 7 both occur twice.\<close>

theorem calculate_mode_smallest_most_frequent_witness:
  "[4, 7, 7, 4, 9 :: real] \<noteq> [] \<and> calculate_mode [4, 7, 7, 4, 9] = Inr 4 \<and> mode_spec [4, 7, 7, 4, 9] = 4"
proof -
  have "mode_spec [4, 7, 7, 4, 9] = 4" by (simp add: mode_spec_def)
  then show ?thesis
    using calculate_mode_smallest_most_frequent [of "[4, 7, 7, 4, 9]"] by simp
qed

text \<open>
  Claim C7. Whatever the body of the \<open>try\<close> block raises, the mode calculator
  returns what the mean calculator returns; and for every non-empty dataset the mode
  calculator returns a number and raises nothing.
\<close>

theorem calculate_mode_never_fails:
  "(\<forall>e. calculate_mode_try data = Inl e \<longrightarrow> calculate_mode data = calculate_mean data)
   \<and> (data \<noteq> [] \<longrightarrow> (\<exists>v. calculate_mode data = Inr v))"
  by (simp add: calculate_mode_def calculate_mode_try_spec)

text \<open>
  The body fails on the empty dataset (the maximum of no counts), where the fallback is
  taken; on the dataset 3, 8 a number is returned.
\<close>

theorem calculate_mode_never_fails_witness:
  "calculate_mode_try [] = Inl ValueError \<and> calculate_mode [] = calculate_mean []
   \<and> [3, 8 :: real] \<noteq> [] \<and> (\<exists>v. calculate_mode [3, 8] = Inr v)"
proof -
  have h: "calculate_mode_try [] = Inl ValueError"
    by (simp add: calculate_mode_try_def Counter_def)
  show ?thesis
    using h calculate_mode_never_fails [of "[]"] calculate_mode_never_fails [of "[3, 8]"]
    by simp
qed

section \<open>The convergence predicate\<close>

lemma check_convergence_Max_Min:
  "2 \<le> length values \<Longrightarrow>
     check_convergence values epsilon = Inr (Max (set values) - Min (set values) \<le> epsilon)"
proof -
  assume "2 \<le> length values"
  then have "values \<noteq> []" by auto
  then show ?thesis
    using \<open>2 \<le> length values\<close> by (simp add: check_convergence_def py_min_Min py_max_Max)
qed

lemma check_convergence_short: "length values < 2 \<Longrightarrow> check_convergence values epsilon = Inr True"
  by (simp add: check_convergence_def)

text \<open>
  Claim C6. A sequence of fewer than two values is convergent whatever epsilon is; for
  two or more values the predicate holds exactly when the largest value minus the
  smallest is at most epsilon. The triple 5.0, 5.0004, 5.0002 is convergent for epsilon
  0.001 and not for epsilon 0.0001.
\<close>

theorem check_convergence_spread:
  "(length values < 2 \<longrightarrow> check_convergence values epsilon = Inr True)
   \<and> (2 \<le> length values \<longrightarrow>
        check_convergence values epsilon = Inr (Max (set values) - Min (set values) \<le> epsilon))
   \<and> check_convergence [5.0, 5.0004, 5.0002] 0.001 = Inr True
   \<and> check_convergence [5.0, 5.0004, 5.0002] 0.0001 = Inr False"
proof -
  have "check_convergence [5.0, 5.0004, 5.0002] 0.001 = Inr True"
    by (simp add: check_convergence_def)
  moreover have "check_convergence [5.0, 5.0004, 5.0002] 0.0001 = Inr False"
    by (simp add: check_convergence_def)
  ultimately show ?thesis
    by (simp add: check_convergence_short check_convergence_Max_Min)
qed

text \<open>The same at a single value with a negative epsilon and at the values 1, 4, 2.\<close>

theorem check_convergence_spread_witness:
  "length [42 :: real] < 2 \<and> check_convergence [42] (- 1) = Inr True
   \<and> 2 \<le> length [1, 4, 2 :: real] \<and> check_convergence [1, 4, 2] 3 = Inr True
   \<and> check_convergence [1, 4, 2] 2.5 = Inr False"
  using check_convergence_spread [of "[42]" "- 1"] check_convergence_spread [of "[1, 4, 2]" 3]
    check_convergence_spread [of "[1, 4, 2]" "2.5"]
  by simp


section \<open>Reordering a dataset\<close>






section \<open>The stagnation predicate\<close>

lemma all_identical_iff: "all_identical f rest = (\<forall>e \<in> set rest. e = f)"
  by (induction rest) auto

lemma slice_from_last:
  "0 < n \<Longrightarrow> n \<le> length xs \<Longrightarrow> slice_from xs (- int n) = drop (length xs - n) xs"
  by (simp add: slice_from_def nat_diff_distrib' max_def)

lemma check_stagnation_1000:
  "check_stagnation h 1000 =
     Inr (1000 \<le> length h \<and> (\<forall>e \<in> set (drop (length h - 1000) h). e = h ! (length h - 1000)))"
proof (cases "1000 \<le> length h")
  case False
  then show ?thesis by (simp add: check_stagnation_def)
next
  case True
  then have sl: "slice_from h (- 1000) = drop (length h - 1000) h"
    using slice_from_last[of 1000 h] by simp
  have "drop (length h - 1000) h = h ! (length h - 1000) # drop (Suc (length h - 1000)) h"
    using True by (intro Cons_nth_drop_Suc[symmetric]) simp
  then show ?thesis
    using True by (simp add: check_stagnation_def sl all_identical_iff)
qed


lemma all_same_replicate:
  "length xs = n \<Longrightarrow> 0 < n \<Longrightarrow> (\<forall>e \<in> set xs. e = xs ! 0) = (\<exists>t. xs = replicate n t)"
proof
  assume "length xs = n" "0 < n" "\<forall>e \<in> set xs. e = xs ! 0"
  then have "replicate (length xs) (xs ! 0) = xs" by (intro replicate_length_same) simp
  then show "\<exists>t. xs = replicate n t" using \<open>length xs = n\<close> by metis
next
  assume "length xs = n" "0 < n" "\<exists>t. xs = replicate n t"
  then obtain t where t: "xs = replicate n t" by blast
  then have "xs ! 0 = t" using \<open>0 < n\<close> by simp
  moreover have "\<forall>e \<in> set xs. e = t" using t by simp
  ultimately show "\<forall>e \<in> set xs. e = xs ! 0" by simp
qed

lemma check_stagnation_replicate:
  "check_stagnation h 1000 =
     Inr (1000 \<le> length h \<and> (\<exists>t. drop (length h - 1000) h = replicate 1000 t))"
proof (cases "1000 \<le> length h")
  case False
  then show ?thesis by (simp add: check_stagnation_def)
next
  case True
  let ?xs = "drop (length h - 1000) h"
  have len: "length ?xs = 1000" using True by simp
  have "?xs ! 0 = h ! (length h - 1000)" using True by simp
  then show ?thesis
    using all_same_replicate[OF len] by (simp add: check_stagnation_1000 True)
qed

lemma check_stagnation_trailing:
  "1000 \<le> n \<Longrightarrow> check_stagnation (earlier @ replicate n t) 1000 = Inr True"
proof -
  assume n: "1000 \<le> n"
  have "drop (length earlier + n - 1000) (earlier @ replicate n t) = replicate 1000 t"
    using n by simp
  then show ?thesis using n by (simp add: check_stagnation_replicate)
qed

text \<open>
  Claim C5. With the window 1000 the stagnation predicate holds exactly when the history
  has at least 1000 entries and its last 1000 entries are one and the same triple. It is
  false on every history of fewer than 1000 entries; it is true when the last 1000
  entries are 7, 7, 7 whatever comes before; and it is false when only the last 999
  entries are identical and the entry before them differs.
\<close>

theorem check_stagnation_window:
  "check_stagnation h 1000 =
     Inr (1000 \<le> length h \<and> (\<exists>t. drop (length h - 1000) h = replicate 1000 t))
   \<and> (length h < 1000 \<longrightarrow> check_stagnation h 1000 = Inr False)
   \<and> check_stagnation (earlier @ replicate 1000 [7, 7, 7]) 1000 = Inr True
   \<and> (x \<noteq> t \<longrightarrow> check_stagnation (earlier @ x # replicate 999 t) 1000 = Inr False)"
proof -
  have a: "length h < 1000 \<longrightarrow> check_stagnation h 1000 = Inr False"
    by (simp add: check_stagnation_def)
  have b: "check_stagnation (earlier @ x # replicate 999 t) 1000 = Inr False" if "x \<noteq> t"
  proof -
    have "drop (length earlier) (earlier @ x # replicate 999 t) = x # replicate 999 t" by simp
    moreover have "x # replicate 999 t \<noteq> replicate 1000 u" for u
    proof
      assume e: "x # replicate 999 t = replicate 1000 u"
      then have "x = u" by (simp add: numeral_eq_Suc)
      moreover have "t = u" using e by (simp add: numeral_eq_Suc)
      ultimately show False using that by simp
    qed
    ultimately show ?thesis by (simp add: check_stagnation_replicate)
  qed
  have c: "check_stagnation (earlier @ replicate 1000 [7, 7, 7]) 1000 = Inr True"
    by (rule check_stagnation_trailing) simp
  have d: "x \<noteq> t \<longrightarrow> check_stagnation (earlier @ x # replicate 999 t) 1000 = Inr False"
    using b by blast
  show ?thesis
    using check_stagnation_replicate[of h] a c d by blast
qed

text \<open>
  The same at a history of 999 entries 7, 7, 7, and at one where 1, 2, 3 stands before
  999 entries 7, 7, 7.
\<close>

theorem check_stagnation_window_witness:
  "length (replicate 999 [7, 7, 7 :: real]) < 1000
   \<and> check_stagnation (replicate 999 [7, 7, 7]) 1000 = Inr False
   \<and> [1, 2, 3] \<noteq> [7, 7, 7 :: real]
   \<and> check_stagnation ([[0, 0, 0]] @ [1, 2, 3] # replicate 999 [7, 7, 7]) 1000 = Inr False"
  using check_stagnation_window [where h = "replicate 999 [7, 7, 7]" and earlier = "[[0, 0, 0]]"
      and x = "[1, 2, 3]" and t = "[7, 7, 7]"]
  by simp


section \<open>One round of the engine\<close>

lemma calculate_median_nonempty:
  "data \<noteq> [] \<Longrightarrow>
     calculate_median data =
       Inr (if length data mod 2 = 1 then sort data ! (length data div 2)
            else (sort data ! (length data div 2 - 1) + sort data ! (length data div 2)) / 2)"
proof -
  assume "data \<noteq> []"
  then have "sort data \<noteq> []" by (metis mset_sort mset_zero_iff)
  then show ?thesis by (simp add: calculate_median_def Let_def)
qed

lemma calculate_statistics_empty: "calculate_statistics [] = Inl ZeroDivisionError"
  by (simp add: calculate_statistics_def calculate_mean_def)

lemma calculate_statistics_nonempty:
  assumes "data \<noteq> []"
  shows "\<exists>mean median mode. calculate_statistics data = Inr (mean, median, mode)"
proof -
  obtain v where "calculate_median data = Inr v"
    using calculate_median_nonempty[OF assms] by blast
  then show ?thesis
    using assms by (simp add: calculate_statistics_def calculate_mean_nonempty calculate_mode_spec)
qed

lemma check_convergence_total: "\<exists>b. check_convergence values epsilon = Inr b"
proof (cases "length values < 2")
  case True
  then show ?thesis using check_convergence_short by blast
next
  case False
  then have "2 \<le> length values" by simp
  then show ?thesis using check_convergence_Max_Min by blast
qed

lemma stagnated_iff:
  "stagnated h = (1000 \<le> length h \<and> (\<exists>t. drop (length h - 1000) h = replicate 1000 t))"
proof (cases "1000 \<le> length h")
  case False
  then show ?thesis by (simp add: stagnated_def)
next
  case True
  have "t = last h" if "drop (length h - 1000) h = replicate 1000 t" for t
  proof -
    have "last h = last (drop (length h - 1000) h)" using True by (simp add: last_drop)
    then show ?thesis by (simp add: that)
  qed
  then show ?thesis using True by (auto simp: stagnated_def)
qed

lemma check_stagnation_stagnated: "check_stagnation h 1000 = Inr (stagnated h)"
  by (simp only: stagnated_iff check_stagnation_replicate)

lemma advance_empty: "current_data s = [] \<Longrightarrow> advance s = Inl ZeroDivisionError"
  by (simp add: advance_def calculate_statistics_empty)

lemma advance_Inr:
  assumes "advance s = Inr (t, s')"
  shows "iteration_history s' = iteration_history s @ [t]"
    and "iteration s' = Suc (iteration s)"
    and "current_data s' = current_data s"
    and "\<exists>mean median mode. calculate_statistics (current_data s) = Inr (mean, median, mode)
           \<and> t = [mean, median, mode]"
  using assms by (auto simp: advance_def Let_def split: sum.splits prod.splits)

lemma advance_nonempty:
  assumes "current_data s \<noteq> []"
  shows "\<exists>t s'. advance s = Inr (t, s')"
proof -
  obtain a b c where "calculate_statistics (current_data s) = Inr (a, b, c)"
    using calculate_statistics_nonempty[OF assms] by blast
  then show ?thesis by (simp add: advance_def Let_def)
qed

lemma slice_to_drop_last:
  "slice_to xs (- int n) = (if n = 0 then [] else take (length xs - n) xs)"
  by (simp add: slice_to_def nat_diff_distrib' max_def)

lemma decide_converged:
  "check_convergence t eps = Inr True \<Longrightarrow>
     decide (Epsilon eps) t s =
       Inr (Inl \<lparr>absolute_stat = sum_list t / real (length t), history = iteration_history s,
                 iterations = iteration s, final_triple = t, why = Convergence\<rparr>)"
  by (simp add: decide_def)

lemma decide_stagnation_only:
  "decide StagnationOnly t s =
     (if stagnated (iteration_history s) then Inr (Inl (stagnation_exit t s))
      else Inr (Inr (s\<lparr>current_data := t\<rparr>)))"
  by (cases "stagnated (iteration_history s)")
     (simp_all add: decide_def check_stagnation_stagnated)

lemma decide_not_converged:
  "check_convergence t eps = Inr False \<Longrightarrow> decide (Epsilon eps) t s = decide StagnationOnly t s"
  by (simp add: decide_def)

lemma decide_total:
  "(\<exists>out. decide crit t s = Inr (Inl out)) \<or> decide crit t s = Inr (Inr (s\<lparr>current_data := t\<rparr>))"
proof (cases crit)
  case StagnationOnly
  then show ?thesis by (simp add: decide_stagnation_only)
next
  case (Epsilon eps)
  obtain b where "check_convergence t eps = Inr b"
    using check_convergence_total by blast
  then show ?thesis
    using Epsilon by (cases b) (simp_all add: decide_converged decide_not_converged decide_stagnation_only)
qed


section \<open>What a run can raise\<close>

lemma loop_body_empty: "current_data s = [] \<Longrightarrow> loop_body crit s = Inl ZeroDivisionError"
  by (simp add: loop_body_def advance_empty)

lemma loop_body_nonempty:
  assumes "current_data s \<noteq> []"
  shows "(\<exists>out. loop_body crit s = Inr (Inl out))
         \<or> (\<exists>s'. loop_body crit s = Inr (Inr s') \<and> current_data s' \<noteq> [])"
proof -
  obtain t s1 where adv: "advance s = Inr (t, s1)"
    using advance_nonempty[OF assms] by blast
  then have "t \<noteq> []" using advance_Inr(4)[OF adv] by auto
  then show ?thesis
    using decide_total[of crit t s1] adv by (auto simp: loop_body_def)
qed

lemma while_true_no_error:
  "current_data s \<noteq> [] \<Longrightarrow> \<exists>r. while_true fuel crit s = Inr r"
proof (induction fuel arbitrary: s)
  case 0
  then show ?case by simp
next
  case (Suc fuel)
  from loop_body_nonempty[OF Suc.prems, of crit] show ?case
  proof
    assume "\<exists>out. loop_body crit s = Inr (Inl out)"
    then show ?thesis by auto
  next
    assume "\<exists>s'. loop_body crit s = Inr (Inr s') \<and> current_data s' \<noteq> []"
    then obtain s' where "loop_body crit s = Inr (Inr s')" "current_data s' \<noteq> []" by blast
    then show ?thesis using Suc.IH[of s'] by simp
  qed
qed

lemma calculate_statistics_single: "calculate_statistics [1] = Inr (1, 1, 1)"
  by (simp add: calculate_statistics_def calculate_mean_def calculate_median_def
      calculate_mode_def calculate_mode_try_def Counter_def)

text \<open>
  Claim C4, as stated, fails: a non-positive epsilon is not rejected. With the dataset 1
  and epsilon 0 the run returns on its first round, and with epsilon -1 it has raised
  nothing after its first round and goes on.
\<close>

theorem nonpositive_epsilon_not_rejected:
  "equilibrium_statistic 1 [1] (Epsilon 0) =
     Inr (Some \<lparr>absolute_stat = 1, history = [[1, 1, 1]], iterations = 1,
                 final_triple = [1, 1, 1], why = Convergence\<rparr>)
   \<and> equilibrium_statistic 1 [1] (Epsilon (- 1)) = Inr None"
  by (simp add: equilibrium_statistic_def loop_body_def advance_def calculate_statistics_single
      decide_def check_convergence_def check_stagnation_def)

text \<open>
  Claim C4, amended. On the empty dataset the run raises ZeroDivisionError, which comes
  from the mean calculator and is not caught. On a non-empty dataset the run raises
  nothing, whatever the criterion: epsilon is not validated, and after any number of
  rounds the run has either returned or is still iterating.
\<close>

theorem equilibrium_statistic_raises_only_on_empty:
  "equilibrium_statistic (Suc fuel) [] crit = Inl ZeroDivisionError
   \<and> (initial_data \<noteq> [] \<longrightarrow> (\<exists>r. equilibrium_statistic fuel initial_data crit = Inr r))"
  by (simp add: equilibrium_statistic_def loop_body_empty while_true_no_error)

text \<open>The same at the dataset 1 with epsilon -1 and seven rounds.\<close>

theorem equilibrium_statistic_raises_only_on_empty_witness:
  "[1 :: real] \<noteq> [] \<and> (\<exists>r. equilibrium_statistic 7 [1] (Epsilon (- 1)) = Inr r)
   \<and> equilibrium_statistic (Suc 7) [] (Epsilon (- 1)) = Inl ZeroDivisionError"
  using equilibrium_statistic_raises_only_on_empty
    [where fuel = 7 and crit = "Epsilon (- 1)" and initial_data = "[1]"]
  by simp


section \<open>Leaving the loop\<close>

lemma stagnation_exit_simps:
  "absolute_stat (stagnation_exit t s) = sum_list t / real (length t)"
  "iterations (stagnation_exit t s) = iteration s"
  "final_triple (stagnation_exit t s) = t"
  "why (stagnation_exit t s) = Stagnation"
  "history (stagnation_exit t s) =
     (if 1000 \<le> length (iteration_history s)
      then take (length (iteration_history s) - 999) (iteration_history s)
      else iteration_history s)"
  using slice_to_drop_last[of "iteration_history s" 999]
  by (simp_all add: stagnation_exit_def)

lemma stagnated_last:
  assumes "stagnated h"
  shows "1000 \<le> length h"
    and "drop (length h - 1000) h = replicate 1000 (last h)"
    and "last (take (length h - 999) h) = last h"
    and "h ! (length h - 1000) = last h"
proof -
  from assms obtain u where len: "1000 \<le> length h"
    and u: "drop (length h - 1000) h = replicate 1000 u"
    by (auto simp: stagnated_iff)
  show "1000 \<le> length h" by (rule len)
  have ne: "h \<noteq> []" using len by auto
  have "last h = last (drop (length h - 1000) h)" using len by (simp add: last_drop)
  also have "\<dots> = u" by (simp add: u)
  finally have lu: "last h = u" .
  show "drop (length h - 1000) h = replicate 1000 (last h)" by (simp add: u lu)
  have "h ! (length h - 1000) = drop (length h - 1000) h ! 0" using len by simp
  also have "\<dots> = u" by (simp add: u)
  finally show nth: "h ! (length h - 1000) = last h" by (simp add: lu)
  have "take (length h - 999) h \<noteq> []" using len ne by simp
  then have "last (take (length h - 999) h) = take (length h - 999) h ! (length h - 999 - 1)"
    using len by (simp add: last_conv_nth)
  also have "\<dots> = h ! (length h - 1000)" using len by simp
  finally show "last (take (length h - 999) h) = last h" by (simp add: nth)
qed


lemma decide_outcome:
  assumes "decide crit t s = Inr (Inl out)"
  shows "iterations out = iteration s"
    and "final_triple out = t"
    and "absolute_stat out = sum_list t / real (length t)"
    and "why out = Convergence \<longrightarrow> history out = iteration_history s"
    and "why out = Stagnation \<longrightarrow> stagnated (iteration_history s) \<and>
           history out = take (length (iteration_history s) - 999) (iteration_history s)"
proof -
  have st: "decide StagnationOnly t s = Inr (Inl out) \<Longrightarrow>
              out = stagnation_exit t s \<and> stagnated (iteration_history s)"
    by (simp add: decide_stagnation_only split: if_splits)
  have "(out = stagnation_exit t s \<and> stagnated (iteration_history s))
        \<or> out = \<lparr>absolute_stat = sum_list t / real (length t), history = iteration_history s,
                  iterations = iteration s, final_triple = t, why = Convergence\<rparr>"
  proof (cases crit)
    case StagnationOnly
    then show ?thesis using assms st by simp
  next
    case (Epsilon eps)
    obtain b where b: "check_convergence t eps = Inr b"
      using check_convergence_total by blast
    show ?thesis
    proof (cases b)
      case True
      then show ?thesis using assms Epsilon b by (simp add: decide_converged)
    next
      case False
      then show ?thesis using assms Epsilon b st by (simp add: decide_not_converged)
    qed
  qed
  then show "iterations out = iteration s"
    and "final_triple out = t"
    and "absolute_stat out = sum_list t / real (length t)"
    and "why out = Convergence \<longrightarrow> history out = iteration_history s"
    and "why out = Stagnation \<longrightarrow> stagnated (iteration_history s) \<and>
           history out = take (length (iteration_history s) - 999) (iteration_history s)"
    by (auto simp: stagnation_exit_simps stagnated_last(1))
qed

lemma while_true_exit:
  assumes "while_true fuel crit s = Inr (Some out)"
    and "length (iteration_history s) = iteration s"
  shows "\<exists>t s'. exit_state fuel crit s = Some s' \<and> decide crit t s' = Inr (Inl out)
           \<and> length (iteration_history s') = iteration s'
           \<and> iteration_history s' \<noteq> [] \<and> last (iteration_history s') = t"
  using assms
proof (induction fuel arbitrary: s)
  case 0
  then show ?case by simp
next
  case (Suc fuel)
  from Suc.prems(1) obtain t s1 where adv: "advance s = Inr (t, s1)"
    by (auto simp: loop_body_def split: sum.splits)
  note a = advance_Inr[OF adv]
  have inv1: "length (iteration_history s1) = iteration s1"
    using a Suc.prems(2) by simp
  from decide_total[of crit t s1] show ?case
  proof
    assume "\<exists>out'. decide crit t s1 = Inr (Inl out')"
    then obtain out' where d: "decide crit t s1 = Inr (Inl out')" by blast
    then have "out' = out" using Suc.prems(1) adv by (simp add: loop_body_def)
    then show ?thesis using d adv inv1 a by auto
  next
    assume d: "decide crit t s1 = Inr (Inr (s1\<lparr>current_data := t\<rparr>))"
    then have "while_true fuel crit (s1\<lparr>current_data := t\<rparr>) = Inr (Some out)"
      using Suc.prems(1) adv by (simp add: loop_body_def)
    from Suc.IH[OF this] inv1 show ?thesis using d adv by simp
  qed
qed


section \<open>Datasets of identical values\<close>

lemma mode_spec_replicate: "0 < n \<Longrightarrow> mode_spec (replicate n c) = c"
proof -
  assume n: "0 < n"
  have cnt: "count_list (replicate n c) c = n" by (induction n) simp_all
  have "filter (\<lambda>v. count_list (replicate n c) v = n) (replicate n c) = replicate n c"
    by (simp add: cnt)
  then show ?thesis using n by (simp add: mode_spec_def cnt)
qed

lemma calculate_statistics_replicate:
  assumes "0 < n"
  shows "calculate_statistics (replicate n c) = Inr (c, c, c)"
proof -
  have ne: "replicate n c \<noteq> []" using assms by simp
  have mean: "calculate_mean (replicate n c) = Inr c"
    using assms by (simp add: calculate_mean_def sum_list_replicate)
  have srt: "sort (replicate n c) = replicate n c"
    by (simp add: sort_key_id_if_sorted)
  have median: "calculate_median (replicate n c) = Inr c"
    using assms by (simp add: calculate_median_nonempty[OF ne] srt)
  have mode: "calculate_mode (replicate n c) = Inr c"
    by (simp add: calculate_mode_spec[OF ne] mode_spec_replicate[OF assms])
  show ?thesis by (simp add: calculate_statistics_def mean median mode)
qed

lemma stagnated_replicate: "stagnated (replicate k t) = (1000 \<le> k)"
proof (cases "1000 \<le> k")
  case True
  then have "k - (k - 1000) = 1000" by simp
  then show ?thesis using True by (simp add: stagnated_iff)
next
  case False
  then show ?thesis by (simp add: stagnated_iff)
qed

lemma stagnated_trailing: "1000 \<le> k \<Longrightarrow> stagnated (earlier @ replicate k t)"
  using check_stagnation_trailing[of k earlier t] by (simp add: check_stagnation_stagnated)

lemma advance_constant:
  assumes "current_data s = replicate m c" and "0 < m"
  shows "advance s = Inr ([c, c, c],
           s\<lparr>iteration_history := iteration_history s @ [[c, c, c]], iteration := iteration s + 1\<rparr>)"
  using assms by (simp add: advance_def calculate_statistics_replicate)

lemma stagnation_only_constant:
  assumes "current_data s = replicate m c" and "0 < m"
    and "iteration_history s = replicate j [c, c, c]" and "iteration s = j" and "j < 1000"
  shows "while_true n StagnationOnly s =
           (if j + n < 1000 then Inr None
            else Inr (Some \<lparr>absolute_stat = c, history = [[c, c, c]], iterations = 1000,
                             final_triple = [c, c, c], why = Stagnation\<rparr>))"
  using assms
proof (induction n arbitrary: s m j)
  case 0
  then show ?case by simp
next
  case (Suc n)
  let ?s1 = "s\<lparr>iteration_history := iteration_history s @ [[c, c, c]], iteration := iteration s + 1\<rparr>"
  have adv: "advance s = Inr ([c, c, c], ?s1)"
    by (rule advance_constant[OF Suc.prems(1,2)])
  have h1: "iteration_history ?s1 = replicate (Suc j) [c, c, c]"
    using Suc.prems(3) by (simp add: replicate_append_same)
  show ?case
  proof (cases "j = 999")
    case True
    then have sg: "stagnated (iteration_history ?s1)" by (simp only: h1 stagnated_replicate)
    have "stagnation_exit [c, c, c] ?s1 =
            \<lparr>absolute_stat = c, history = [[c, c, c]], iterations = 1000,
             final_triple = [c, c, c], why = Stagnation\<rparr>"
      using True Suc.prems(4) h1
      by (simp add: stagnation_exit_def slice_to_def numeral_eq_Suc)
    then show ?thesis
      using True adv sg by (simp add: loop_body_def decide_stagnation_only)
  next
    case False
    then have j: "Suc j < 1000" using Suc.prems(5) by simp
    then have nsg: "\<not> stagnated (iteration_history ?s1)"
      by (simp only: h1 stagnated_replicate not_le)
    let ?s2 = "?s1\<lparr>current_data := [c, c, c]\<rparr>"
    have step: "while_true (Suc n) StagnationOnly s = while_true n StagnationOnly ?s2"
      using adv nsg by (simp add: loop_body_def decide_stagnation_only)
    have "current_data ?s2 = replicate 3 c" by (simp add: numeral_eq_Suc)
    moreover have "iteration_history ?s2 = replicate (Suc j) [c, c, c]" using h1 by simp
    moreover have "iteration ?s2 = Suc j" using Suc.prems(4) by simp
    ultimately have "while_true n StagnationOnly ?s2 =
           (if Suc j + n < 1000 then Inr None
            else Inr (Some \<lparr>absolute_stat = c, history = [[c, c, c]], iterations = 1000,
                             final_triple = [c, c, c], why = Stagnation\<rparr>))"
      using j by (intro Suc.IH[of ?s2 3 "Suc j"]) simp_all
    then show ?thesis using step by simp
  qed
qed


lemma stagnation_only_constant_run:
  assumes "0 < m"
  shows "equilibrium_statistic n (replicate m c) StagnationOnly =
           (if n < 1000 then Inr None
            else Inr (Some \<lparr>absolute_stat = c, history = [[c, c, c]], iterations = 1000,
                             final_triple = [c, c, c], why = Stagnation\<rparr>))"
  unfolding equilibrium_statistic_def
  using stagnation_only_constant[of _ m c 0 n] assms by simp


section \<open>The returned history\<close>

text \<open>
  Claim C1. When a run returns, the history at the \<open>return\<close> statement has one entry
  per iteration. On convergence it is returned as it is. On stagnation the iteration count
  N is at least 1000, the last 1000 entries of that history are one and the same triple,
  and the returned history is its first N - 999 entries: its length is N - 999 and its
  last entry is the first of the 1000 identical entries, hence the repeated triple.
\<close>

theorem stagnation_drops_last_999:
  assumes "equilibrium_statistic fuel initial_data crit = Inr (Some out)"
  shows "\<exists>s. equilibrium_exit fuel initial_data crit = Some s
           \<and> iteration s = iterations out
           \<and> length (iteration_history s) = iterations out
           \<and> (why out = Convergence \<longrightarrow> history out = iteration_history s)
           \<and> (why out = Stagnation \<longrightarrow>
                1000 \<le> iterations out
                \<and> history out = take (iterations out - 999) (iteration_history s)
                \<and> length (history out) = iterations out - 999
                \<and> drop (iterations out - 1000) (iteration_history s)
                    = replicate 1000 (last (history out))
                \<and> last (history out) = iteration_history s ! (iterations out - 1000))"
proof -
  let ?s0 = "\<lparr>current_data = initial_data, iteration = 0, iteration_history = []\<rparr>"
  have "while_true fuel crit ?s0 = Inr (Some out)"
    using assms by (simp add: equilibrium_statistic_def)
  then obtain t s where ex: "exit_state fuel crit ?s0 = Some s"
    and d: "decide crit t s = Inr (Inl out)"
    and inv: "length (iteration_history s) = iteration s"
    using while_true_exit[of fuel crit ?s0 out] by auto
  note o = decide_outcome[OF d]
  have stag: "1000 \<le> iterations out
                \<and> history out = take (iterations out - 999) (iteration_history s)
                \<and> length (history out) = iterations out - 999
                \<and> drop (iterations out - 1000) (iteration_history s)
                    = replicate 1000 (last (history out))
                \<and> last (history out) = iteration_history s ! (iterations out - 1000)"
    if "why out = Stagnation"
  proof -
    from that o(5) have sg: "stagnated (iteration_history s)"
      and h: "history out = take (length (iteration_history s) - 999) (iteration_history s)"
      by simp_all
    note sl = stagnated_last[OF sg]
    show ?thesis using sl h inv o(1) by simp
  qed
  have ex': "equilibrium_exit fuel initial_data crit = Some s"
    using ex by (simp add: equilibrium_exit_def)
  have it: "iteration s = iterations out" using o(1) by simp
  have len: "length (iteration_history s) = iterations out" using inv o(1) by simp
  show ?thesis
    using ex' it len o(4) stag by blast
qed


text \<open>
  The same at the dataset 4, 4 in stagnation-only mode, which stagnates after 1000
  iterations and returns a history of one entry.
\<close>

theorem stagnation_drops_last_999_witness:
  "equilibrium_statistic 1000 [4, 4] StagnationOnly =
     Inr (Some \<lparr>absolute_stat = 4, history = [[4, 4, 4]], iterations = 1000,
                 final_triple = [4, 4, 4], why = Stagnation\<rparr>)
   \<and> (\<exists>s. equilibrium_exit 1000 [4, 4] StagnationOnly = Some s
          \<and> length (iteration_history s) = 1000
          \<and> [[4, 4, 4]] = take (1000 - 999) (iteration_history s)
          \<and> drop (1000 - 1000) (iteration_history s) = replicate 1000 [4, 4, 4])"
proof -
  have h: "equilibrium_statistic 1000 [4, 4] StagnationOnly =
     Inr (Some \<lparr>absolute_stat = 4, history = [[4, 4, 4]], iterations = 1000,
                 final_triple = [4, 4, 4], why = Stagnation\<rparr>)"
    using stagnation_only_constant_run[of 2 1000 4] by (simp add: numeral_2_eq_2)
  show ?thesis
    using h stagnation_drops_last_999 [OF h] by (simp; blast)
qed

section \<open>The first round on identical values\<close>





section \<open>Exact fixed points\<close>

lemma decide_stagnated:
  assumes "stagnated (iteration_history s)"
  shows "\<exists>out. decide crit t s = Inr (Inl out)"
proof (cases crit)
  case StagnationOnly
  then show ?thesis using assms by (simp add: decide_stagnation_only)
next
  case (Epsilon eps)
  obtain b where "check_convergence t eps = Inr b"
    using check_convergence_total by blast
  then show ?thesis
    using Epsilon assms
    by (cases b) (simp_all add: decide_converged decide_not_converged decide_stagnation_only)
qed

lemma fixed_point_run:
  assumes "advance s = Inr (current_data s, s1)"
    and "iteration_history s = earlier @ replicate j (current_data s)"
    and "j < 1000" and "1000 \<le> j + n"
  shows "\<exists>out. while_true n crit s = Inr (Some out) \<and> final_triple out = current_data s
           \<and> iterations out \<le> iteration s + n"
  using assms
proof (induction n arbitrary: s s1 j)
  case 0
  then show ?case by simp
next
  case (Suc n)
  let ?t = "current_data s"
  note a = advance_Inr[OF Suc.prems(1)]
  have h1: "iteration_history s1 = earlier @ replicate (Suc j) ?t"
    using a(1) Suc.prems(2) by (simp add: replicate_append_same)
  from decide_total[of crit ?t s1] show ?case
  proof
    assume "\<exists>out. decide crit ?t s1 = Inr (Inl out)"
    then obtain out where d: "decide crit ?t s1 = Inr (Inl out)" by blast
    note o = decide_outcome[OF d]
    have "while_true (Suc n) crit s = Inr (Some out)"
      using d Suc.prems(1) by (simp add: loop_body_def)
    then show ?thesis using o(1,2) a(2) by simp
  next
    let ?s2 = "s1\<lparr>current_data := ?t\<rparr>"
    assume d: "decide crit ?t s1 = Inr (Inr ?s2)"
    have "\<not> stagnated (iteration_history s1)"
      using decide_stagnated[of s1 crit ?t] d by auto
    then have j: "Suc j < 1000"
      using stagnated_trailing[of "Suc j" earlier ?t] h1 by (cases "Suc j < 1000") simp_all
    have step: "while_true (Suc n) crit s = while_true n crit ?s2"
      using d Suc.prems(1) by (simp add: loop_body_def)
    have cur: "current_data ?s2 = ?t" by simp
    obtain a' b' c' where st: "calculate_statistics ?t = Inr (a', b', c')" "?t = [a', b', c']"
      using a(4) by blast
    have adv2: "advance ?s2 = Inr (current_data ?s2,
        ?s2\<lparr>iteration_history := iteration_history ?s2 @ [[a', b', c']], iteration := iteration ?s2 + 1\<rparr>)"
      using st by (simp add: advance_def)
    have "\<exists>out. while_true n crit ?s2 = Inr (Some out) \<and> final_triple out = current_data ?s2
           \<and> iterations out \<le> iteration ?s2 + n"
      using h1 j Suc.prems(4) by (intro Suc.IH[OF adv2, of "Suc j"]) simp_all
    then show ?thesis using step a(2) by auto
  qed
qed


text \<open>
  Claim C9. When the triple produced in a round equals the dataset of that round, every
  round on that dataset produces the same triple again, a round that goes on keeps that
  dataset, and the run returns within 1000 rounds counted from that round, in either
  mode, with that triple as its last output.
\<close>

theorem fixed_point_stagnates_within_1000:
  assumes "advance s = Inr (t, s')" and "t = current_data s"
  shows "(\<forall>u. current_data u = t \<longrightarrow> (\<exists>u'. advance u = Inr (t, u')))
         \<and> (\<forall>s''. loop_body crit s = Inr (Inr s'') \<longrightarrow> current_data s'' = t)
         \<and> (\<exists>out. while_true 1000 crit s = Inr (Some out) \<and> final_triple out = t
               \<and> iterations out \<le> iteration s + 1000)"
proof -
  obtain a b c where st: "calculate_statistics t = Inr (a, b, c)" "t = [a, b, c]"
    using advance_Inr(4)[OF assms(1)] assms(2) by auto
  have 1: "\<forall>u. current_data u = t \<longrightarrow> (\<exists>u'. advance u = Inr (t, u'))"
    using st by (simp add: advance_def)
  have 2: "\<forall>s''. loop_body crit s = Inr (Inr s'') \<longrightarrow> current_data s'' = t"
    using decide_total[of crit t s'] assms(1) by (auto simp: loop_body_def)
  have adv: "advance s = Inr (current_data s, s')" using assms by simp
  have "iteration_history s = iteration_history s @ replicate 0 (current_data s)" by simp
  from fixed_point_run[OF adv this, of 1000 crit]
  have 3: "\<exists>out. while_true 1000 crit s = Inr (Some out) \<and> final_triple out = t
               \<and> iterations out \<le> iteration s + 1000"
    using assms(2) by simp
  show ?thesis using 1 2 3 by blast
qed


text \<open>The same at the dataset 2, 2, 2 in stagnation-only mode.\<close>

theorem fixed_point_stagnates_within_1000_witness:
  "advance \<lparr>current_data = [2, 2, 2], iteration = 0, iteration_history = []\<rparr> =
     Inr ([2, 2, 2], \<lparr>current_data = [2, 2, 2], iteration = 1, iteration_history = [[2, 2, 2]]\<rparr>)
   \<and> [2, 2, 2] = current_data \<lparr>current_data = [2, 2, 2], iteration = 0, iteration_history = []\<rparr>
   \<and> (\<exists>out. while_true 1000 StagnationOnly
                \<lparr>current_data = [2, 2, 2], iteration = 0, iteration_history = []\<rparr>
                = Inr (Some out)
              \<and> final_triple out = [2, 2, 2] \<and> iterations out \<le> 0 + 1000)"
proof -
  let ?s = "\<lparr>current_data = [2, 2, 2], iteration = 0, iteration_history = []\<rparr>"
  let ?s' = "\<lparr>current_data = [2, 2, 2], iteration = 1, iteration_history = [[2, 2, 2]]\<rparr>"
  have h: "advance ?s = Inr ([2, 2, 2], ?s')"
    using advance_constant[of ?s 3 2] by (simp add: numeral_3_eq_3)
  have e: "[2, 2, 2] = current_data ?s" by simp
  show ?thesis
    using h fixed_point_stagnates_within_1000 [OF h e, of StagnationOnly] by simp
qed

section \<open>The order of the two checks\<close>

lemma loop_body_stagnation_only:
  assumes "calculate_statistics (current_data s) = Inr (mean, median, mode)"
  shows "loop_body StagnationOnly s =
     (let new_data = [mean, median, mode];
          s' = s\<lparr>iteration_history := iteration_history s @ [new_data],
                 iteration := iteration s + 1\<rparr>
      in if stagnated (iteration_history s')
         then Inr (Inl (stagnation_exit new_data s'))
         else Inr (Inr (s'\<lparr>current_data := new_data\<rparr>)))"
  using assms by (simp add: loop_body_def advance_def decide_stagnation_only Let_def)

lemma loop_body_converged:
  assumes "calculate_statistics (current_data s) = Inr (mean, median, mode)"
    and "check_convergence [mean, median, mode] eps = Inr True"
  shows "loop_body (Epsilon eps) s =
     Inr (Inl \<lparr>absolute_stat = (mean + median + mode) / 3,
               history = iteration_history s @ [[mean, median, mode]],
               iterations = iteration s + 1,
               final_triple = [mean, median, mode],
               why = Convergence\<rparr>)"
  using assms by (simp add: loop_body_def advance_def decide_converged Let_def)

lemma loop_body_not_converged:
  assumes "calculate_statistics (current_data s) = Inr (mean, median, mode)"
    and "check_convergence [mean, median, mode] eps = Inr False"
  shows "loop_body (Epsilon eps) s = loop_body StagnationOnly s"
  using assms by (simp add: loop_body_def advance_def decide_not_converged Let_def)

lemma stagnation_only_why:
  "while_true fuel StagnationOnly s = Inr (Some out) \<Longrightarrow> why out = Stagnation"
proof (induction fuel arbitrary: s)
  case 0
  then show ?case by simp
next
  case (Suc fuel)
  from Suc.prems obtain t s1 where adv: "advance s = Inr (t, s1)"
    by (auto simp: loop_body_def split: sum.splits)
  show ?case
  proof (cases "stagnated (iteration_history s1)")
    case True
    then have "out = stagnation_exit t s1"
      using Suc.prems adv by (simp add: loop_body_def decide_stagnation_only)
    then show ?thesis by (simp add: stagnation_exit_simps)
  next
    case False
    then have "while_true fuel StagnationOnly (s1\<lparr>current_data := t\<rparr>) = Inr (Some out)"
      using Suc.prems adv by (simp add: loop_body_def decide_stagnation_only)
    then show ?thesis by (rule Suc.IH)
  qed
qed

text \<open>
  Claim C2. In a round whose statistics are mean, median and mode, the triple is appended
  to the history and the counter is incremented. With an epsilon for which the triple is
  convergent the round returns the mean of the three components and the history as it
  is, whatever the stagnation predicate says. With an epsilon for which it is not
  convergent the round does what it does in stagnation-only mode. In stagnation-only
  mode the round depends on the stagnation predicate alone: it returns when the history
  has stagnated and otherwise goes on with the triple as the next dataset; so a
  stagnation-only run that returns has returned by stagnation.
\<close>

theorem convergence_checked_before_stagnation:
  assumes "calculate_statistics (current_data s) = Inr (mean, median, mode)"
  shows "(check_convergence [mean, median, mode] eps = Inr True \<longrightarrow>
            loop_body (Epsilon eps) s =
              Inr (Inl \<lparr>absolute_stat = (mean + median + mode) / 3,
                        history = iteration_history s @ [[mean, median, mode]],
                        iterations = iteration s + 1,
                        final_triple = [mean, median, mode],
                        why = Convergence\<rparr>))
         \<and> (check_convergence [mean, median, mode] eps = Inr False \<longrightarrow>
              loop_body (Epsilon eps) s = loop_body StagnationOnly s)
         \<and> loop_body StagnationOnly s =
             (let new_data = [mean, median, mode];
                  s' = s\<lparr>iteration_history := iteration_history s @ [new_data],
                         iteration := iteration s + 1\<rparr>
              in if stagnated (iteration_history s')
                 then Inr (Inl (stagnation_exit new_data s'))
                 else Inr (Inr (s'\<lparr>current_data := new_data\<rparr>)))
         \<and> (\<forall>fuel out. while_true fuel StagnationOnly s = Inr (Some out) \<longrightarrow>
               why out = Stagnation)"
  using loop_body_converged[OF assms] loop_body_not_converged[OF assms]
    loop_body_stagnation_only[OF assms] stagnation_only_why
  by (simp only: simp_thms) blast


text \<open>
  The same at the dataset 1 with epsilon 0, which converges in the first round and
  stagnates after 1000 rounds in stagnation-only mode, and at the dataset
  1, 2, 2, 3, 100 with epsilon 0.001, which does not converge in the first round.
\<close>

theorem convergence_checked_before_stagnation_witness:
  "calculate_statistics (current_data \<lparr>current_data = [1], iteration = 0, iteration_history = []\<rparr>)
     = Inr (1, 1, 1)
   \<and> check_convergence [1, 1, 1] 0 = Inr True
   \<and> loop_body (Epsilon 0) \<lparr>current_data = [1], iteration = 0, iteration_history = []\<rparr> =
        Inr (Inl \<lparr>absolute_stat = 1, history = [[1, 1, 1]], iterations = 1,
                  final_triple = [1, 1, 1], why = Convergence\<rparr>)
   \<and> (\<exists>out. while_true 1000 StagnationOnly
                \<lparr>current_data = [1], iteration = 0, iteration_history = []\<rparr> = Inr (Some out)
              \<and> why out = Stagnation)
   \<and> calculate_statistics
         (current_data \<lparr>current_data = [1, 2, 2, 3, 100], iteration = 0, iteration_history = []\<rparr>)
       = Inr (108 / 5, 2, 2)
   \<and> check_convergence [108 / 5, 2, 2] 0.001 = Inr False
   \<and> loop_body (Epsilon 0.001)
         \<lparr>current_data = [1, 2, 2, 3, 100], iteration = 0, iteration_history = []\<rparr>
       = loop_body StagnationOnly
           \<lparr>current_data = [1, 2, 2, 3, 100], iteration = 0, iteration_history = []\<rparr>"
proof -
  let ?s = "\<lparr>current_data = [1], iteration = 0, iteration_history = []\<rparr>"
  let ?u = "\<lparr>current_data = [1, 2, 2, 3, 100], iteration = 0, iteration_history = []\<rparr>"
  have h1: "calculate_statistics (current_data ?s) = Inr (1, 1, 1)"
    by (simp add: calculate_statistics_single)
  have c1: "check_convergence [1, 1, 1] 0 = Inr True"
    by (simp add: check_convergence_def)
  have r: "while_true 1000 StagnationOnly ?s =
      Inr (Some \<lparr>absolute_stat = 1, history = [[1, 1, 1]], iterations = 1000,
                  final_triple = [1, 1, 1], why = Stagnation\<rparr>)"
    using stagnation_only_constant_run[of 1 1000 1] by (simp add: equilibrium_statistic_def)
  have h2: "calculate_statistics (current_data ?u) = Inr (108 / 5, 2, 2)"
    by (simp add: calculate_statistics_def calculate_mean_def calculate_median_def
        calculate_mode_def calculate_mode_try_def Counter_def)
  have c2: "check_convergence [108 / 5, 2, 2] 0.001 = Inr False"
    by (simp add: check_convergence_def)
  show ?thesis
    using h1 c1 r h2 c2
      convergence_checked_before_stagnation [OF h1, of 0]
      convergence_checked_before_stagnation [OF h2, of "0.001"]
    by simp
qed


end
